theory Spec2Isabelle
  imports Main "HOL-Library.Sublist"
begin

section \<open>Strings and the interpreter's character tables\<close>

text \<open>
  A Python \<open>str\<close> is a sequence of Unicode code points, so a string is a list of
  natural numbers (the code points), not a list of 8-bit characters. \<open>ascii\<close> reads
  an ASCII literal as such a string.
\<close>

type_synonym codepoint = nat
type_synonym str = "codepoint list"

definition ascii :: "string \<Rightarrow> str" where
  "ascii s = map of_char s"

definition hyphen :: codepoint where
  "hyphen = 45"

text \<open>
  \<open>sanitize_filename\<close> uses three things of the Python library: the classes \<open>\w\<close>
  and \<open>\s\<close> of module \<open>re\<close> (on \<open>str\<close> patterns they follow the Unicode database
  of the interpreter) and \<open>str.lower\<close>. They are a parameter of the model.
\<close>

record unicode =
  re_word :: "codepoint \<Rightarrow> bool"
  re_space :: "codepoint \<Rightarrow> bool"
  str_lower :: "str \<Rightarrow> str"

text \<open>
  On ASCII the three are fixed: \<open>\w\<close> is \<open>[A-Za-z0-9_]\<close>, \<open>\s\<close> is the characters
  9 to 13 and 28 to 32, and \<open>lower\<close> moves \<open>A-Z\<close> to \<open>a-z\<close> character by character.
\<close>

definition ascii_word :: "codepoint \<Rightarrow> bool" where
  "ascii_word c = ((48 \<le> c \<and> c \<le> 57) \<or> (65 \<le> c \<and> c \<le> 90) \<or> c = 95 \<or> (97 \<le> c \<and> c \<le> 122))"

definition ascii_space :: "codepoint \<Rightarrow> bool" where
  "ascii_space c = ((9 \<le> c \<and> c \<le> 13) \<or> (28 \<le> c \<and> c \<le> 32))"

definition ascii_lower :: "codepoint \<Rightarrow> codepoint" where
  "ascii_lower c = (if 65 \<le> c \<and> c \<le> 90 then c + 32 else c)"

definition is_ascii :: "str \<Rightarrow> bool" where
  "is_ascii s = list_all (\<lambda>c. c < 128) s"

definition ascii_tables :: "unicode \<Rightarrow> bool" where
  "ascii_tables U =
     ((\<forall>c<128. re_word U c = ascii_word c \<and> re_space U c = ascii_space c) \<and>
      (\<forall>s. is_ascii s \<longrightarrow> str_lower U s = map ascii_lower s))"


definition lower_keeps_text :: "unicode \<Rightarrow> bool" where
  "lower_keeps_text U =
     (\<forall>s. (\<exists>c\<in>set s. c \<noteq> hyphen) \<longrightarrow> (\<exists>c\<in>set (str_lower U s). c \<noteq> hyphen))"

text \<open>
  An excerpt of CPython's tables, for evaluating the model on concrete strings: ASCII,
  and the two code points U+0130 (LATIN CAPITAL LETTER I WITH DOT ABOVE, a letter,
  whose lower case is the two code points \<open>i\<close> and U+0307) and U+0307 (COMBINING DOT
  ABOVE, a mark: neither \<open>\w\<close> nor \<open>\s\<close>, unchanged by \<open>lower\<close>). Every other code
  point is outside the excerpt; the closed theorems below only use strings inside it.
\<close>

definition excerpt_word :: "codepoint \<Rightarrow> bool" where
  "excerpt_word c = (if c < 128 then ascii_word c else c = 304)"

definition excerpt_space :: "codepoint \<Rightarrow> bool" where
  "excerpt_space c = (c < 128 \<and> ascii_space c)"

definition excerpt_lower :: "codepoint \<Rightarrow> str" where
  "excerpt_lower c = (if c = 304 then [105, 775] else [ascii_lower c])"

definition cpython_excerpt :: unicode where
  "cpython_excerpt =
     \<lparr> re_word = excerpt_word, re_space = excerpt_space,
       str_lower = (\<lambda>s. concat (map excerpt_lower s)) \<rparr>"


section \<open>Filename sanitization\<close>

text \<open>
  \<^verbatim>\<open>filename = re.sub(r"[^\w\s-]", "", filename)\<close>: every character that is not a
  word character, white space or a hyphen is deleted.
\<close>

definition keeps :: "unicode \<Rightarrow> codepoint \<Rightarrow> bool" where
  "keeps U c = (re_word U c \<or> re_space U c \<or> c = hyphen)"

definition strip_unsafe :: "unicode \<Rightarrow> str \<Rightarrow> str" where
  "strip_unsafe U s = filter (keeps U) s"

text \<open>
  \<^verbatim>\<open>filename = re.sub(r"[-\s]+", "-", filename)\<close>: scanning from the left, every
  maximal run of hyphens and white space is replaced by one hyphen.
\<close>

definition separator :: "unicode \<Rightarrow> codepoint \<Rightarrow> bool" where
  "separator U c = (c = hyphen \<or> re_space U c)"

function collapse_runs :: "unicode \<Rightarrow> str \<Rightarrow> str" where
  "collapse_runs U [] = []"
| "collapse_runs U (c # cs) =
     (if separator U c then hyphen # collapse_runs U (dropWhile (separator U) cs)
      else c # collapse_runs U cs)"
  by pat_completeness auto
termination
  by (relation "measure (\<lambda>(U, s). length s)")
     (auto simp: length_dropWhile_le less_Suc_eq_le)

text \<open>\<^verbatim>\<open>.strip("-")\<close>: leading and trailing hyphens are removed.\<close>

definition strip_hyphens :: "str \<Rightarrow> str" where
  "strip_hyphens s =
     rev (dropWhile (\<lambda>c. c = hyphen) (rev (dropWhile (\<lambda>c. c = hyphen) s)))"

definition sanitize_filename :: "unicode \<Rightarrow> str \<Rightarrow> str" where
  "sanitize_filename U filename =
     strip_hyphens (str_lower U (collapse_runs U (strip_unsafe U filename)))"

text \<open>
  The shape of a sanitized ASCII name: lower-case letters, digits and underscores,
  separated by single hyphens, with no hyphen at either end.
\<close>

definition lower_word :: "codepoint \<Rightarrow> bool" where
  "lower_word c = ((48 \<le> c \<and> c \<le> 57) \<or> c = 95 \<or> (97 \<le> c \<and> c \<le> 122))"

fun single_hyphens :: "str \<Rightarrow> bool" where
  "single_hyphens (a # b # cs) = (\<not> (a = hyphen \<and> b = hyphen) \<and> single_hyphens (b # cs))"
| "single_hyphens cs = True"

definition trimmed :: "str \<Rightarrow> bool" where
  "trimmed r = (r = [] \<or> (hd r \<noteq> hyphen \<and> last r \<noteq> hyphen))"

definition clean :: "str \<Rightarrow> bool" where
  "clean r = (list_all (\<lambda>c. lower_word c \<or> c = hyphen) r \<and> single_hyphens r \<and> trimmed r)"


section \<open>Enumerations, exceptions and dictionaries\<close>

datatype ImageStyle = PHOTOREALISTIC | CARTOON | ARTISTIC | MINIMALIST | PIXEL_ART

datatype ImageSize = SQUARE | PORTRAIT | LANDSCAPE

fun size_value :: "ImageSize \<Rightarrow> str" where
  "size_value SQUARE = ascii ''square''"
| "size_value PORTRAIT = ascii ''portrait''"
| "size_value LANDSCAPE = ascii ''landscape''"

text \<open>
  The exceptions of the program. \<open>Exit\<close> is \<open>typer.Exit\<close>, which is click's \<open>Exit\<close>, a
  \<open>RuntimeError\<close>; \<open>Raised\<close> stands for any other \<open>Exception\<close> that a collaborator
  (service client, HTTP, image library, file system) raises; \<open>Interrupt\<close> stands for
  the \<open>BaseException\<close>s that \<^verbatim>\<open>except Exception\<close> lets through.
\<close>

datatype exn = Exit nat | KeyError | IndexError | AttributeError | Raised str | Interrupt

fun is_Exception :: "exn \<Rightarrow> bool" where
  "is_Exception Interrupt = False"
| "is_Exception e = True"

text \<open>\<^verbatim>\<open>d[k]\<close> on a dictionary literal, written as its list of items.\<close>

definition getitem :: "('k \<times> 'v) list \<Rightarrow> 'k \<Rightarrow> exn + 'v" where
  "getitem d k = (case map_of d k of None \<Rightarrow> Inl KeyError | Some v \<Rightarrow> Inr v)"

definition size_map :: "(str \<times> str) list" where
  "size_map =
     [(ascii ''square'', ascii ''1024x1024''),
      (ascii ''portrait'', ascii ''1024x1792''),
      (ascii ''landscape'', ascii ''1792x1024'')]"

definition get_dimensions :: "ImageSize \<Rightarrow> exn + str" where
  "get_dimensions self = getitem size_map (size_value self)"

text \<open>Truth value of an optional string: \<open>None\<close> and \<open>""\<close> are false.\<close>

definition truthy :: "str option \<Rightarrow> bool" where
  "truthy x = (case x of None \<Rightarrow> False | Some s \<Rightarrow> s \<noteq> [])"


section \<open>The clock and the timestamp\<close>

record datetime =
  dt_year :: nat
  dt_month :: nat
  dt_day :: nat
  dt_hour :: nat
  dt_minute :: nat
  dt_second :: nat

fun dec :: "nat \<Rightarrow> str" where
  "dec n = (if n < 10 then [48 + n] else dec (n div 10) @ [48 + n mod 10])"

declare dec.simps [simp del]

definition zfill :: "nat \<Rightarrow> str \<Rightarrow> str" where
  "zfill w s = replicate (w - length s) 48 @ s"

text \<open>
  \<^verbatim>\<open>strftime("%Y%m%d_%H%M%S")\<close>. \<open>%m\<close>, \<open>%d\<close>, \<open>%H\<close>, \<open>%M\<close> and \<open>%S\<close> are zero-padded to
  two digits. \<open>%Y\<close> is written with four digits here; platforms differ below the year
  1000, which \<open>valid_clock\<close> leaves out.
\<close>

definition strftime :: "datetime \<Rightarrow> str" where
  "strftime d =
     zfill 4 (dec (dt_year d)) @ zfill 2 (dec (dt_month d)) @ zfill 2 (dec (dt_day d)) @
     [95] @
     zfill 2 (dec (dt_hour d)) @ zfill 2 (dec (dt_minute d)) @ zfill 2 (dec (dt_second d))"

definition valid_clock :: "datetime \<Rightarrow> bool" where
  "valid_clock d =
     (1000 \<le> dt_year d \<and> dt_year d \<le> 9999 \<and> 1 \<le> dt_month d \<and> dt_month d \<le> 12 \<and>
      1 \<le> dt_day d \<and> dt_day d \<le> 31 \<and> dt_hour d < 24 \<and> dt_minute d < 60 \<and> dt_second d < 60)"

definition digit :: "codepoint \<Rightarrow> bool" where
  "digit c = (48 \<le> c \<and> c \<le> 57)"

text \<open>The pattern \<open>YYYYMMDD_HHMMSS\<close>: eight digits, an underscore, six digits.\<close>

definition is_timestamp :: "str \<Rightarrow> bool" where
  "is_timestamp s =
     (length s = 15 \<and> list_all digit (take 8 s) \<and> s ! 8 = 95 \<and> list_all digit (drop 9 s))"


section \<open>Collaborators and effects\<close>

text \<open>
  A float is carried around, never computed with: it is given by its 64 bits. A path
  is \<open>Path(s)\<close> or \<open>p / name\<close>; a decoded image is opaque.
\<close>

datatype pyfloat = Float64 nat

datatype path = Path str | Slash path str

datatype image = Image "nat list"

record message_request =
  mr_model :: str
  mr_max_tokens :: nat
  mr_temperature :: pyfloat
  mr_messages :: "(str \<times> str) list"

record image_request =
  ir_model :: str
  ir_prompt :: str
  ir_size :: str
  ir_quality :: str
  ir_n :: nat

text \<open>
  What the program does to the outside world, in order: console output, the two client
  objects, the two service calls, the download, the two file-system operations, and the
  progress bar. The elapsed time is a float computed from the wall clock; the line that
  prints it is recorded without its text, and the line that prints the saved path is
  recorded with the path in place of its text.
\<close>

datatype event =
    Print str
  | PrintException
  | PrintElapsed
  | PrintSaved path
  | NewAnthropic str
  | NewOpenAI str
  | MessagesCreate message_request
  | ImagesGenerate image_request
  | HttpGet str
  | Mkdir path
  | ImageSave image path
  | AddTask str nat
  | UpdateDescription str
  | Advance nat

text \<open>
  The collaborators are a parameter: the character tables, the clock read by
  \<open>datetime.now()\<close>, \<open>str(e)\<close> of an exception, and one function for each outside
  call, which returns a value or raises.
\<close>

record env =
  tables :: unicode
  now :: datetime
  exn_str :: "exn \<Rightarrow> str"
  messages_create :: "message_request \<Rightarrow> exn + str list"
  images_generate :: "image_request \<Rightarrow> exn + str list"
  requests_get :: "str \<Rightarrow> exn + nat list"
  image_open :: "nat list \<Rightarrow> exn + image"
  mkdir :: "path \<Rightarrow> exn + unit"
  image_save :: "image \<Rightarrow> path \<Rightarrow> exn + unit"

text \<open>
  A computation returns a value or raises, and leaves the events it caused. Sequencing
  stops at the first exception, as Python does.
\<close>

type_synonym 'a io = "(exn + 'a) \<times> event list"

definition io_return :: "'a \<Rightarrow> 'a io" where
  "io_return x = (Inr x, [])"

definition io_raise :: "exn \<Rightarrow> 'a io" where
  "io_raise e = (Inl e, [])"

definition io_pure :: "exn + 'a \<Rightarrow> 'a io" where
  "io_pure r = (r, [])"

definition io_emit :: "event \<Rightarrow> unit io" where
  "io_emit ev = (Inr (), [ev])"

definition io_call :: "event \<Rightarrow> exn + 'a \<Rightarrow> 'a io" where
  "io_call ev r = (r, [ev])"

definition io_bind :: "'a io \<Rightarrow> ('a \<Rightarrow> 'b io) \<Rightarrow> 'b io" where
  "io_bind m f =
     (case m of
        (Inl e, tr) \<Rightarrow> (Inl e, tr)
      | (Inr x, tr) \<Rightarrow> (case f x of (r, tr') \<Rightarrow> (r, tr @ tr')))"

text \<open>\<^verbatim>\<open>xs[0]\<close>.\<close>

definition first :: "'a list \<Rightarrow> exn + 'a" where
  "first xs = (case xs of [] \<Rightarrow> Inl IndexError | x # _ \<Rightarrow> Inr x)"


section \<open>The generator\<close>

record generator =
  gen_temperature :: pyfloat
  gen_verbose :: bool
  gen_images_dir :: "path option"
  gen_filename :: str

text \<open>
  \<open>__init__\<close>: a filename that is given and not empty is sanitized; otherwise the
  filename is the timestamp of the clock.
\<close>

definition FlexibleImageGenerator ::
  "env \<Rightarrow> pyfloat \<Rightarrow> bool \<Rightarrow> str option \<Rightarrow> path option \<Rightarrow> generator" where
  "FlexibleImageGenerator E temp verb fname dir =
     \<lparr> gen_temperature = temp, gen_verbose = verb, gen_images_dir = dir,
       gen_filename =
         (case fname of
            None \<Rightarrow> strftime (now E)
          | Some f \<Rightarrow> if f \<noteq> [] then sanitize_filename (tables E) f else strftime (now E)) \<rparr>"

subsection \<open>Prompt synthesis\<close>

definition style_instructions :: "(ImageStyle \<times> str) list" where
  "style_instructions =
     [(PHOTOREALISTIC,
         ascii ''Create a photorealistic image with high detail and natural lighting''),
      (CARTOON,
         ascii ''Create a cartoon-style illustration with bold colors and clean lines''),
      (ARTISTIC,
         ascii ''Create an artistic interpretation with creative expression and artistic flair''),
      (MINIMALIST,
         ascii ''Create a minimalist design with clean, simple elements and plenty of negative space''),
      (PIXEL_ART,
         ascii ''Create a pixel art style image with distinct pixels and limited color palette'')]"

definition nl :: str where
  "nl = [10]"

text \<open>
  The f-string of \<open>generate_image_prompt\<close>, for a dictionary \<open>d\<close> of directives. The
  lookup \<open>d[style]\<close> raises \<open>KeyError\<close> on a style that \<open>d\<close> does not have.
\<close>

definition prompt_template :: "(ImageStyle \<times> str) list \<Rightarrow> str \<Rightarrow> ImageStyle \<Rightarrow> str option \<Rightarrow> exn + str" where
  "prompt_template d description style additional_instructions =
     (case getitem d style of
        Inl e \<Rightarrow> Inl e
      | Inr directive \<Rightarrow> Inr (
          ascii ''Create an image generation prompt based on the following description:'' @ nl @
          ascii ''Description: '' @ description @ nl @
          nl @
          ascii ''Style instructions: '' @ directive @ nl @
          nl @
          ascii ''Additional requirements:'' @ nl @
          ascii ''1. Focus on visual elements and composition'' @ nl @
          ascii ''2. Be specific about colors, lighting, and mood'' @ nl @
          ascii ''3. Include details about perspective and framing'' @ nl @
          ascii ''4. Maintain consistency with the chosen style'' @ nl @
          (case additional_instructions of
             None \<Rightarrow> []
           | Some a \<Rightarrow> if a \<noteq> [] then ascii ''5. '' @ a else []) @ nl @
          nl @
          ascii ''Write a clear, detailed prompt for DALL-E to create this image.''))"

definition prompt_request :: "generator \<Rightarrow> str \<Rightarrow> message_request" where
  "prompt_request self prompt =
     \<lparr> mr_model = ascii ''claude-3-sonnet-20240229'', mr_max_tokens = 500,
       mr_temperature = gen_temperature self,
       mr_messages = [(ascii ''user'', prompt)] \<rparr>"

definition generate_image_prompt ::
  "env \<Rightarrow> generator \<Rightarrow> str \<Rightarrow> ImageStyle \<Rightarrow> str option \<Rightarrow> str io" where
  "generate_image_prompt E self description style additional_instructions =
     io_bind (io_pure (prompt_template style_instructions description style additional_instructions))
       (\<lambda>prompt.
     io_bind (io_call (MessagesCreate (prompt_request self prompt))
                (messages_create E (prompt_request self prompt)))
       (\<lambda>content.
     io_pure (first content)))"

subsection \<open>Image fetching\<close>

definition dalle_request :: "str \<Rightarrow> str \<Rightarrow> image_request" where
  "dalle_request prompt dims =
     \<lparr> ir_model = ascii ''dall-e-3'', ir_prompt = prompt, ir_size = dims,
       ir_quality = ascii ''standard'', ir_n = 1 \<rparr>"

text \<open>The body of the \<open>try\<close> block of \<open>generate_image\<close>.\<close>

definition generate_image_try :: "env \<Rightarrow> generator \<Rightarrow> str \<Rightarrow> ImageSize \<Rightarrow> path io" where
  "generate_image_try E self prompt image_size =
     io_bind (io_pure (get_dimensions image_size))
       (\<lambda>dims.
     io_bind (io_call (ImagesGenerate (dalle_request prompt dims))
                (images_generate E (dalle_request prompt dims)))
       (\<lambda>data.
     io_bind (io_pure (first data))
       (\<lambda>image_url.
     io_bind (io_call (HttpGet image_url) (requests_get E image_url))
       (\<lambda>content.
     io_bind (io_pure (image_open E content))
       (\<lambda>image.
     io_bind (case gen_images_dir self of
                None \<Rightarrow> io_raise AttributeError
              | Some dir \<Rightarrow> io_bind (io_call (Mkdir dir) (mkdir E dir)) (\<lambda>_. io_return dir))
       (\<lambda>dir.
     io_bind (io_call (ImageSave image (Slash dir (gen_filename self @ ascii ''.png'')))
                (image_save E image (Slash dir (gen_filename self @ ascii ''.png''))))
       (\<lambda>_.
     io_return (Slash dir (gen_filename self @ ascii ''.png'')))))))))"

text \<open>
  The \<open>except Exception\<close> clause: in verbose mode a warning with \<open>str(e)\<close> is printed;
  then the exception is raised again.
\<close>

definition warning :: "env \<Rightarrow> generator \<Rightarrow> exn \<Rightarrow> event list" where
  "warning E self e =
     (if gen_verbose self
      then [Print (ascii ''[yellow]Warning: Failed to generate image: '' @ exn_str E e @
                   ascii ''[/yellow]'')]
      else [])"

definition generate_image :: "env \<Rightarrow> generator \<Rightarrow> str \<Rightarrow> ImageSize \<Rightarrow> path io" where
  "generate_image E self prompt image_size =
     (case generate_image_try E self prompt image_size of
        (Inl e, tr) \<Rightarrow> if is_Exception e then (Inl e, tr @ warning E self e) else (Inl e, tr)
      | (Inr image_path, tr) \<Rightarrow> (Inr image_path, tr))"

subsection \<open>One run of the generator\<close>

text \<open>
  \<open>generate\<close>, step by step; the coroutine runs its steps one after the other. The
  progress bar is recorded by the task it adds and by each update; that the display
  starts and stops around the block is left out, and so is the elapsed time in the
  result.
\<close>

record generation_result =
  res_image_path :: path
  res_prompt :: str

definition generate ::
  "env \<Rightarrow> generator \<Rightarrow> str \<Rightarrow> ImageStyle \<Rightarrow> ImageSize \<Rightarrow> str option \<Rightarrow> generation_result io" where
  "generate E self description style image_size additional_instructions =
     io_bind (io_emit (AddTask (ascii ''[cyan]Generating image...'') 100))
       (\<lambda>_.
     io_bind (io_emit (UpdateDescription (ascii ''[cyan]Generating prompt...'')))
       (\<lambda>_.
     io_bind (generate_image_prompt E self description style additional_instructions)
       (\<lambda>image_prompt.
     io_bind (io_emit (Advance 30))
       (\<lambda>_.
     io_bind (io_emit (UpdateDescription (ascii ''[cyan]Creating image...'')))
       (\<lambda>_.
     io_bind (generate_image E self image_prompt image_size)
       (\<lambda>image_path.
     io_bind (io_emit (Advance 60))
       (\<lambda>_.
     io_bind (io_emit (UpdateDescription (ascii ''[cyan]Saving image...'')))
       (\<lambda>_.
     io_bind (io_emit (Advance 10))
       (\<lambda>_.
     io_return \<lparr> res_image_path = image_path, res_prompt = image_prompt \<rparr>)))))))))"


section \<open>The pipeline and the command\<close>

record arguments =
  arg_description :: str
  arg_style :: ImageStyle
  arg_size :: ImageSize
  arg_additional_instructions :: "str option"
  arg_filename :: "str option"
  arg_images_dir :: str
  arg_temperature :: pyfloat
  arg_anthropic_api_key :: "str option"
  arg_openai_api_key :: "str option"
  arg_verbose :: bool

text \<open>
  \<^verbatim>\<open>if not filename: filename = FlexibleImageGenerator.sanitize_filename(description[:30])\<close>
\<close>

definition default_filename :: "unicode \<Rightarrow> str \<Rightarrow> str option \<Rightarrow> str option" where
  "default_filename U description filename =
     (if \<not> truthy filename then Some (sanitize_filename U (take 30 description)) else filename)"

definition run_generation :: "env \<Rightarrow> arguments \<Rightarrow> str \<Rightarrow> str \<Rightarrow> unit io" where
  "run_generation E a anthropic_api_key openai_api_key =
     io_bind (io_emit (NewAnthropic anthropic_api_key))
       (\<lambda>_.
     io_bind (io_emit (NewOpenAI openai_api_key))
       (\<lambda>_.
     io_bind (generate E
                (FlexibleImageGenerator E (arg_temperature a) (arg_verbose a)
                   (default_filename (tables E) (arg_description a) (arg_filename a))
                   (Some (Path (arg_images_dir a))))
                (arg_description a) (arg_style a) (arg_size a) (arg_additional_instructions a))
       (\<lambda>results.
     io_bind (io_emit (Print (nl @ ascii ''[green]Generation Complete![/green]'')))
       (\<lambda>_.
     io_bind (io_emit PrintElapsed)
       (\<lambda>_.
     io_bind (if arg_verbose a
              then io_emit (Print (ascii ''Generated prompt: '' @ res_prompt results))
              else io_return ())
       (\<lambda>_.
     io_emit (PrintSaved (res_image_path results))))))))"

definition anthropic_key_error :: str where
  "anthropic_key_error = ascii ''[red]Error: Anthropic API key is required. Set ANTHROPIC_API_KEY environment variable or use --anthropic-key[/red]''"

definition openai_key_error :: str where
  "openai_key_error = ascii ''[red]Error: OpenAI API key is required. Set OPENAI_API_KEY environment variable or use --openai-key[/red]''"

text \<open>The body of the \<open>try\<close> block of \<open>create_image\<close>.\<close>

definition create_image_try :: "env \<Rightarrow> arguments \<Rightarrow> unit io" where
  "create_image_try E a =
     (case arg_anthropic_api_key a of
        None \<Rightarrow> io_bind (io_emit (Print anthropic_key_error)) (\<lambda>_. io_raise (Exit 1))
      | Some ka \<Rightarrow>
          if ka = [] then io_bind (io_emit (Print anthropic_key_error)) (\<lambda>_. io_raise (Exit 1))
          else
            (case arg_openai_api_key a of
               None \<Rightarrow> io_bind (io_emit (Print openai_key_error)) (\<lambda>_. io_raise (Exit 1))
             | Some ko \<Rightarrow>
                 if ko = [] then io_bind (io_emit (Print openai_key_error)) (\<lambda>_. io_raise (Exit 1))
                 else run_generation E a ka ko))"

text \<open>
  The \<open>except Exception\<close> clause of \<open>create_image\<close>: it also catches the \<open>typer.Exit\<close>
  raised inside the \<open>try\<close> block, prints the generic message with \<open>str(e)\<close> (and the
  traceback in verbose mode) and raises \<open>typer.Exit(1)\<close>.
\<close>

definition generation_error :: "env \<Rightarrow> arguments \<Rightarrow> exn \<Rightarrow> event list" where
  "generation_error E a e =
     Print (ascii ''[red]Error during generation: '' @ exn_str E e @ ascii ''[/red]'') #
     (if arg_verbose a then [PrintException] else [])"

definition create_image :: "env \<Rightarrow> arguments \<Rightarrow> unit io" where
  "create_image E a =
     (case create_image_try E a of
        (Inl e, tr) \<Rightarrow>
          if is_Exception e then (Inl (Exit 1), tr @ generation_error E a e) else (Inl e, tr)
      | (Inr u, tr) \<Rightarrow> (Inr u, tr))"

definition is_console :: "event \<Rightarrow> bool" where
  "is_console ev =
     (case ev of Print _ \<Rightarrow> True | PrintException \<Rightarrow> True | PrintElapsed \<Rightarrow> True
      | PrintSaved _ \<Rightarrow> True | _ \<Rightarrow> False)"


section \<open>Sample collaborators\<close>

text \<open>
  Concrete collaborators on which the model can be run: a clock reading, a plain
  \<open>str(e)\<close>, services that answer, and variants of them in which one call fails.
\<close>

definition sample_clock :: datetime where
  "sample_clock =
     \<lparr> dt_year = 2024, dt_month = 3, dt_day = 9, dt_hour = 7, dt_minute = 5, dt_second = 2 \<rparr>"

fun sample_str :: "exn \<Rightarrow> str" where
  "sample_str (Exit n) = dec n"
| "sample_str (Raised m) = m"
| "sample_str e = []"

definition online :: env where
  "online =
     \<lparr> tables = cpython_excerpt, now = sample_clock, exn_str = sample_str,
       messages_create = (\<lambda>r. Inr [ascii ''A red fox standing in fresh snow'']),
       images_generate = (\<lambda>r. Inr [ascii ''https://img.example/fox'']),
       requests_get = (\<lambda>url. Inr [137, 80, 78, 71]),
       image_open = (\<lambda>content. Inr (Image content)),
       mkdir = (\<lambda>dir. Inr ()),
       image_save = (\<lambda>img p. Inr ()) \<rparr>"






definition sample_generator :: "bool \<Rightarrow> generator" where
  "sample_generator verb =
     FlexibleImageGenerator online (Float64 0) verb (Some (ascii ''Red Fox''))
       (Some (Path (ascii ''./images'')))"

definition sample_arguments :: arguments where
  "sample_arguments =
     \<lparr> arg_description = ascii ''a red fox in snow'', arg_style = PHOTOREALISTIC,
       arg_size = SQUARE, arg_additional_instructions = None, arg_filename = None,
       arg_images_dir = ascii ''./images'', arg_temperature = Float64 0,
       arg_anthropic_api_key = Some (ascii ''sk-ant''), arg_openai_api_key = Some (ascii ''sk-oai''),
       arg_verbose = False \<rparr>"


section \<open>Properties of the sanitizer\<close>
















lemma ascii_tablesD:
  assumes "ascii_tables U"
  shows "c < 128 \<Longrightarrow> re_word U c = ascii_word c"
    and "c < 128 \<Longrightarrow> re_space U c = ascii_space c"
    and "is_ascii s \<Longrightarrow> str_lower U s = map ascii_lower s"
  using assms by (simp_all add: ascii_tables_def)








lemma excerpt_lower_ascii: "is_ascii s \<Longrightarrow> concat (map excerpt_lower s) = map ascii_lower s"
  by (induction s) (auto simp: is_ascii_def excerpt_lower_def)

lemma excerpt_ascii_tables: "ascii_tables cpython_excerpt"
  by (simp add: ascii_tables_def cpython_excerpt_def excerpt_word_def excerpt_space_def
      excerpt_lower_ascii)

lemma excerpt_lower_keeps_text: "lower_keeps_text cpython_excerpt"
proof -
  have "\<And>c. c \<noteq> hyphen \<Longrightarrow> \<exists>d\<in>set (excerpt_lower c). d \<noteq> hyphen"
    by (auto simp: excerpt_lower_def ascii_lower_def hyphen_def)
  then show ?thesis
    by (fastforce simp: lower_keeps_text_def cpython_excerpt_def)
qed


lemma collapse_runs_keeps:
  "c \<in> set s \<Longrightarrow> \<not> separator U c \<Longrightarrow> c \<in> set (collapse_runs U s)"
proof (induction U s rule: collapse_runs.induct)
  case (1 U) then show ?case by simp
next
  case (2 U a cs)
  show ?case
  proof (cases "separator U a")
    case True
    with "2.prems" have "c \<in> set cs" by auto
    with "2.prems" have "c \<in> set (dropWhile (separator U) cs)"
      by (induction cs) auto
    with 2 True show ?thesis by simp
  next
    case False
    with 2 show ?thesis by auto
  qed
qed

lemma strip_hyphens_nonempty:
  assumes "\<exists>c\<in>set s. c \<noteq> hyphen"
  shows "strip_hyphens s \<noteq> []"
proof -
  let ?d = "dropWhile (\<lambda>c. c = hyphen) s"
  from assms have ne: "?d \<noteq> []" by (simp add: dropWhile_eq_Nil_conv)
  then have "hd ?d \<noteq> hyphen" using hd_dropWhile[of "\<lambda>c. c = hyphen" s] by simp
  with ne have "\<exists>c\<in>set (rev ?d). c \<noteq> hyphen" by (metis hd_in_set set_rev)
  then have "dropWhile (\<lambda>c. c = hyphen) (rev ?d) \<noteq> []" by (simp add: dropWhile_eq_Nil_conv)
  then show ?thesis by (simp add: strip_hyphens_def)
qed

lemma sanitize_nonempty:
  assumes "lower_keeps_text U" and "\<exists>c\<in>set s. re_word U c \<and> \<not> separator U c"
  shows "sanitize_filename U s \<noteq> []"
proof -
  from assms(2) obtain c where c: "c \<in> set s" "re_word U c" "\<not> separator U c" by blast
  then have "c \<in> set (strip_unsafe U s)" by (simp add: strip_unsafe_def keeps_def)
  with c have "c \<in> set (collapse_runs U (strip_unsafe U s))" by (simp add: collapse_runs_keeps)
  moreover from c have "c \<noteq> hyphen" by (simp add: separator_def)
  ultimately have "\<exists>d\<in>set (str_lower U (collapse_runs U (strip_unsafe U s))). d \<noteq> hyphen"
    using assms(1) unfolding lower_keeps_text_def by blast
  then show ?thesis unfolding sanitize_filename_def by (rule strip_hyphens_nonempty)
qed

lemma sanitize_example:
  assumes U: "ascii_tables U"
  shows "sanitize_filename U (ascii ''Hello, World! 2024'') = ascii ''hello-world-2024''"
proof -
  note T = ascii_tablesD(1,2)[OF U]
  have 1: "strip_unsafe U (ascii ''Hello, World! 2024'') = ascii ''Hello World 2024''"
    by (simp add: strip_unsafe_def keeps_def ascii_def T ascii_word_def ascii_space_def hyphen_def)
  have 2: "collapse_runs U (ascii ''Hello World 2024'') = ascii ''Hello-World-2024''"
    by (simp add: separator_def ascii_def T ascii_space_def hyphen_def)
  have "is_ascii (ascii ''Hello-World-2024'')" by (simp add: is_ascii_def ascii_def)
  then have 3: "str_lower U (ascii ''Hello-World-2024'') = ascii ''hello-world-2024''"
    by (simp add: ascii_tablesD(3)[OF U]) (simp add: ascii_def ascii_lower_def)
  have 4: "strip_hyphens (ascii ''hello-world-2024'') = ascii ''hello-world-2024''"
    by (simp add: strip_hyphens_def ascii_def hyphen_def)
  show ?thesis by (simp add: sanitize_filename_def 1 2 3 4)
qed




subsection \<open>The shape of the output\<close>





subsection \<open>Idempotence\<close>





subsection \<open>Non-empty output\<close>

text \<open>
  C4, amended. For every input string that contains a word character (one that is
  not a separator, that is, neither a hyphen nor white space), \<open>sanitize_filename\<close>
  returns a non-empty string; and \<open>sanitize_filename "Hello, World! 2024"\<close> is
  \<open>hello-world-2024\<close>. An input of hyphens and white space only is not empty after the
  first substitution, and its output is empty.
\<close>

theorem sanitize_filename_nonempty:
  "lower_keeps_text U \<Longrightarrow> ascii_tables U \<Longrightarrow>
   ((\<exists>c\<in>set s. re_word U c \<and> \<not> separator U c) \<longrightarrow> sanitize_filename U s \<noteq> []) \<and>
   sanitize_filename U (ascii ''Hello, World! 2024'') = ascii ''hello-world-2024''"
  by (simp add: sanitize_nonempty sanitize_example)

text \<open>The theorem at the input \<open>"- x -"\<close>, on the excerpt of the tables.\<close>

theorem sanitize_filename_nonempty_witness:
  "(\<exists>c\<in>set (ascii ''- x -''). re_word cpython_excerpt c \<and> \<not> separator cpython_excerpt c) \<and>
   sanitize_filename cpython_excerpt (ascii ''- x -'') \<noteq> [] \<and>
   sanitize_filename cpython_excerpt (ascii ''Hello, World! 2024'') = ascii ''hello-world-2024''"
proof -
  have h: "\<exists>c\<in>set (ascii ''- x -''). re_word cpython_excerpt c \<and> \<not> separator cpython_excerpt c"
    by code_simp
  with sanitize_filename_nonempty[OF excerpt_lower_keeps_text excerpt_ascii_tables, of "ascii ''- x -''"]
  show ?thesis by blast
qed

text \<open>
  The input \<open>" - "\<close> is left as it is by the first substitution, so it is not empty
  after the stripping of unsafe characters; its output is empty.
\<close>

theorem sanitize_empty_counterexample:
  "strip_unsafe cpython_excerpt (ascii '' - '') = ascii '' - '' \<and>
   sanitize_filename cpython_excerpt (ascii '' - '') = []"
  by code_simp


section \<open>The timestamp fallback\<close>

lemma dec_digits: "list_all digit (dec n)"
proof (induction n rule: dec.induct)
  case (1 n)
  show ?case
  proof (cases "n < 10")
    case True
    then show ?thesis by (subst dec.simps) (simp add: digit_def)
  next
    case False
    with 1 have "list_all digit (dec (n div 10))" by simp
    moreover have "digit (48 + n mod 10)" by (simp add: digit_def)
    ultimately show ?thesis using False by (subst dec.simps) simp
  qed
qed

lemma dec_length1: "n < 10 \<Longrightarrow> length (dec n) = 1"
  by (subst dec.simps) simp

lemma dec_length2: "n < 100 \<Longrightarrow> length (dec n) \<le> 2"
  by (subst dec.simps) (simp add: dec_length1)

lemma dec_length4: "1000 \<le> n \<Longrightarrow> n \<le> 9999 \<Longrightarrow> length (dec n) = 4"
proof -
  assume a: "1000 \<le> n" "n \<le> 9999"
  have 1: "dec n = dec (n div 10) @ [48 + n mod 10]" using a by (subst dec.simps) simp
  have 2: "dec (n div 10) = dec (n div 10 div 10) @ [48 + n div 10 mod 10]"
    using a by (subst dec.simps) simp
  have 3: "dec (n div 10 div 10) = dec (n div 10 div 10 div 10) @ [48 + n div 10 div 10 mod 10]"
    using a by (subst dec.simps) simp
  have "n div 10 div 10 div 10 < 10" using a by simp
  then have "length (dec (n div 10 div 10 div 10)) = 1" by (rule dec_length1)
  with 1 2 3 show ?thesis by simp
qed

lemma zfill_length: "length s \<le> w \<Longrightarrow> length (zfill w s) = w"
  by (simp add: zfill_def)

lemma zfill_digits: "list_all digit s \<Longrightarrow> list_all digit (zfill w s)"
  by (auto simp: zfill_def list_all_iff digit_def)

lemma strftime_is_timestamp:
  assumes "valid_clock d"
  shows "is_timestamp (strftime d)"
proof -
  let ?Y = "zfill 4 (dec (dt_year d))" and ?m = "zfill 2 (dec (dt_month d))"
  and ?d = "zfill 2 (dec (dt_day d))" and ?H = "zfill 2 (dec (dt_hour d))"
  and ?M = "zfill 2 (dec (dt_minute d))" and ?S = "zfill 2 (dec (dt_second d))"
  from assms have len: "length ?Y = 4" "length ?m = 2" "length ?d = 2"
    "length ?H = 2" "length ?M = 2" "length ?S = 2"
    by (simp_all add: valid_clock_def zfill_length dec_length4 dec_length2)
  have dig: "list_all digit ?Y" "list_all digit ?m" "list_all digit ?d"
    "list_all digit ?H" "list_all digit ?M" "list_all digit ?S"
    by (simp_all add: zfill_digits dec_digits)
  have s: "strftime d = ?Y @ ?m @ ?d @ [95] @ ?H @ ?M @ ?S" by (simp add: strftime_def)
  have "length (strftime d) = 15" unfolding s using len by simp
  moreover have "take 8 (strftime d) = ?Y @ ?m @ ?d" unfolding s using len by simp
  moreover have "strftime d ! 8 = 95" unfolding s using len by (simp add: nth_append)
  moreover have "drop 9 (strftime d) = ?H @ ?M @ ?S" unfolding s using len by simp
  ultimately show ?thesis using dig by (simp add: is_timestamp_def)
qed

text \<open>
  C5. Whenever no filename is supplied (it is absent or empty) and the sanitized first
  30 characters of the description are the empty string, the filename of the generator
  is the timestamp of the clock, and that timestamp has the form \<open>YYYYMMDD_HHMMSS\<close>:
  eight digits, an underscore, six digits. The clock is any date and time with a
  four-digit year.
\<close>

theorem timestamp_fallback:
  "valid_clock (now E) \<Longrightarrow> \<not> truthy filename \<Longrightarrow>
   sanitize_filename (tables E) (take 30 description) = [] \<Longrightarrow>
   gen_filename (FlexibleImageGenerator E temp verb
      (default_filename (tables E) description filename) dir) = strftime (now E) \<and>
   is_timestamp (strftime (now E))"
  by (simp add: FlexibleImageGenerator_def default_filename_def strftime_is_timestamp)

text \<open>The theorem for the description \<open>"?!..."\<close> at the sample clock.\<close>

lemma sample_clock_valid: "valid_clock (now online)"
  by (simp add: online_def sample_clock_def valid_clock_def)

theorem timestamp_fallback_witness:
  "gen_filename (FlexibleImageGenerator online (Float64 0) False
      (default_filename (tables online) (ascii ''?!...'') None) None) = ascii ''20240309_070502'' \<and>
   is_timestamp (ascii ''20240309_070502'')"
proof -
  have 1: "\<not> truthy None" by (simp add: truthy_def)
  have 2: "sanitize_filename (tables online) (take 30 (ascii ''?!...'')) = []" by code_simp
  have 3: "strftime (now online) = ascii ''20240309_070502''" by code_simp
  from timestamp_fallback[OF sample_clock_valid 1 2, of "Float64 0" False None] 3
  show ?thesis by simp
qed


section \<open>Properties of the enumerations\<close>

text \<open>
  C6. \<open>get_dimensions\<close> returns a dimension string for each of the three sizes and
  never raises: \<open>square\<close> gives \<open>1024x1024\<close>, \<open>portrait\<close> gives \<open>1024x1792\<close>,
  \<open>landscape\<close> gives \<open>1792x1024\<close>.
\<close>

theorem get_dimensions_total:
  "get_dimensions SQUARE = Inr (ascii ''1024x1024'') \<and>
   get_dimensions PORTRAIT = Inr (ascii ''1024x1792'') \<and>
   get_dimensions LANDSCAPE = Inr (ascii ''1792x1024'') \<and>
   (\<forall>s. \<exists>d. get_dimensions s = Inr d)"
proof -
  have 1: "get_dimensions SQUARE = Inr (ascii ''1024x1024'')"
    and 2: "get_dimensions PORTRAIT = Inr (ascii ''1024x1792'')"
    and 3: "get_dimensions LANDSCAPE = Inr (ascii ''1792x1024'')"
    by (simp_all add: get_dimensions_def getitem_def size_map_def ascii_def)
  have "\<exists>d. get_dimensions s = Inr d" for s
    using 1 2 3 by (cases s) simp_all
  with 1 2 3 show ?thesis by blast
qed

section \<open>Properties of the prompt synthesizer\<close>

lemmas io_defs = io_bind_def io_pure_def io_call_def io_return_def io_raise_def io_emit_def

lemma getitem_style: "\<exists>d. getitem style_instructions style = Inr d"
  by (cases style) (simp_all add: getitem_def style_instructions_def)

lemma getitem_missing: "k \<notin> fst ` set d \<Longrightarrow> getitem d k = Inl KeyError"
  by (simp add: getitem_def map_of_eq_None_iff[THEN iffD2])

lemma prompt_template_split:
  assumes "getitem d style = Inr directive"
  shows "\<exists>p ps ss. prompt_template d description style additional = Inr p \<and>
           p = ps @ directive @ ss"
proof -
  let ?ps = "ascii ''Create an image generation prompt based on the following description:'' @ nl @
          ascii ''Description: '' @ description @ nl @ nl @ ascii ''Style instructions: ''"
  from assms obtain ss where
    "prompt_template d description style additional = Inr (?ps @ directive @ ss)"
    unfolding prompt_template_def by simp
  then show ?thesis by blast
qed

lemma generate_image_prompt_sends:
  assumes "prompt_template style_instructions description style additional = Inr p"
  shows "generate_image_prompt E self description style additional =
        (case messages_create E (prompt_request self p) of
           Inl e \<Rightarrow> Inl e | Inr content \<Rightarrow> first content,
         [MessagesCreate (prompt_request self p)])"
  unfolding generate_image_prompt_def io_defs using assms
  by (cases "messages_create E (prompt_request self p)") simp_all


text \<open>
  C7. For each of the five styles the dictionary has a directive, and the prompt that
  \<open>generate_image_prompt\<close> assembles and sends as the one user message of its request
  contains that directive verbatim. The dictionary has exactly the five styles as keys,
  one directive each. There is no default: with a dictionary that lacks the style the
  lookup raises \<open>KeyError\<close>.
\<close>

theorem prompt_contains_directive:
  "(\<exists>d p. getitem style_instructions style = Inr d \<and>
      prompt_template style_instructions description style additional = Inr p \<and>
      sublist d p \<and>
      generate_image_prompt E self description style additional =
        (case messages_create E (prompt_request self p) of
           Inl e \<Rightarrow> Inl e | Inr content \<Rightarrow> first content,
         [MessagesCreate (prompt_request self p)]) \<and>
      mr_messages (prompt_request self p) = [(ascii ''user'', p)]) \<and>
   map fst style_instructions = [PHOTOREALISTIC, CARTOON, ARTISTIC, MINIMALIST, PIXEL_ART] \<and>
   (\<forall>t. style \<notin> fst ` set t \<longrightarrow>
      prompt_template t description style additional = Inl KeyError)"
proof -
  from getitem_style obtain d where d: "getitem style_instructions style = Inr d" by blast
  from prompt_template_split[OF d] obtain p where
    p: "prompt_template style_instructions description style additional = Inr p"
    and s: "sublist d p"
    unfolding sublist_def by blast
  note sent = generate_image_prompt_sends[OF p]
  have m: "mr_messages (prompt_request self p) = [(ascii ''user'', p)]"
    by (simp add: prompt_request_def)
  have keys: "map fst style_instructions = [PHOTOREALISTIC, CARTOON, ARTISTIC, MINIMALIST, PIXEL_ART]"
    by (simp add: style_instructions_def)
  have none: "\<forall>t. style \<notin> fst ` set t \<longrightarrow>
      prompt_template t description style additional = Inl KeyError"
    by (simp add: prompt_template_def getitem_missing)
  from d p s sent m keys none show ?thesis by blast
qed

text \<open>
  The theorem for the style \<open>pixel_art\<close>: a dictionary without it raises, and the
  prompt built from \<open>style_instructions\<close> contains the pixel-art directive.
\<close>

theorem prompt_contains_directive_witness:
  "prompt_template [(CARTOON, ascii ''Create a cartoon'')] (ascii ''a red fox in snow'') PIXEL_ART None
     = Inl KeyError \<and>
   (\<exists>p. prompt_template style_instructions (ascii ''a red fox in snow'') PIXEL_ART None = Inr p \<and>
      sublist (ascii ''Create a pixel art style image with distinct pixels and limited color palette'') p)"
proof -
  note T = prompt_contains_directive[of PIXEL_ART "ascii ''a red fox in snow''" None online
      "sample_generator False"]
  have "PIXEL_ART \<notin> fst ` set [(CARTOON, ascii ''Create a cartoon'')]" by simp
  with T have 1: "prompt_template [(CARTOON, ascii ''Create a cartoon'')]
      (ascii ''a red fox in snow'') PIXEL_ART None = Inl KeyError" by blast
  have "getitem style_instructions PIXEL_ART =
     Inr (ascii ''Create a pixel art style image with distinct pixels and limited color palette'')"
    by (simp add: getitem_def style_instructions_def)
  with T have 2: "\<exists>p. prompt_template style_instructions (ascii ''a red fox in snow'') PIXEL_ART None = Inr p \<and>
      sublist (ascii ''Create a pixel art style image with distinct pixels and limited color palette'') p"
    by auto
  from 1 2 show ?thesis by simp
qed


section \<open>Properties of the command\<close>

lemma create_image_try_no_anthropic:
  "\<not> truthy (arg_anthropic_api_key a) \<Longrightarrow>
   create_image_try E a = (Inl (Exit 1), [Print anthropic_key_error])"
  by (cases "arg_anthropic_api_key a") (simp_all add: create_image_try_def truthy_def io_defs)

lemma create_image_try_no_openai:
  "truthy (arg_anthropic_api_key a) \<Longrightarrow> \<not> truthy (arg_openai_api_key a) \<Longrightarrow>
   create_image_try E a = (Inl (Exit 1), [Print openai_key_error])"
  by (cases "arg_anthropic_api_key a"; cases "arg_openai_api_key a")
     (simp_all add: create_image_try_def truthy_def io_defs)

text \<open>
  C8. If the Anthropic key or the OpenAI key is missing (absent or empty),
  \<open>create_image\<close> prints the message of the first missing key and raises
  \<open>typer.Exit(1)\<close>, which ends the process with exit code 1. Everything it did before
  is console output: no client is made and no service is called, whatever the
  collaborators would answer. (The \<open>except Exception\<close> clause sees the first
  \<open>typer.Exit\<close> and prints its generic line after the specific message.)
\<close>

theorem missing_key_exits:
  "\<not> truthy (arg_anthropic_api_key a) \<or> \<not> truthy (arg_openai_api_key a) \<Longrightarrow>
   create_image E a =
     (Inl (Exit 1),
      Print (if \<not> truthy (arg_anthropic_api_key a) then anthropic_key_error else openai_key_error)
        # generation_error E a (Exit 1)) \<and>
   list_all is_console (snd (create_image E a))"
proof (cases "truthy (arg_anthropic_api_key a)")
  case False
  then show ?thesis
    by (simp add: create_image_def create_image_try_no_anthropic generation_error_def is_console_def)
next
  case True
  assume "\<not> truthy (arg_anthropic_api_key a) \<or> \<not> truthy (arg_openai_api_key a)"
  with True have "\<not> truthy (arg_openai_api_key a)" by simp
  with True show ?thesis
    by (simp add: create_image_def create_image_try_no_openai generation_error_def is_console_def)
qed

text \<open>The theorem for the sample arguments with an empty OpenAI key.\<close>

theorem missing_key_exits_witness:
  "create_image online (sample_arguments \<lparr> arg_openai_api_key := Some [] \<rparr>) =
     (Inl (Exit 1), [Print openai_key_error, Print (ascii ''[red]Error during generation: 1[/red]'')])"
proof -
  let ?a = "sample_arguments \<lparr> arg_openai_api_key := Some [] \<rparr>"
  have a: "truthy (arg_anthropic_api_key ?a)" by code_simp
  have o: "\<not> truthy (arg_openai_api_key ?a)" by (simp add: truthy_def)
  have g: "generation_error online ?a (Exit 1) = [Print (ascii ''[red]Error during generation: 1[/red]'')]"
    by code_simp
  from o have "\<not> truthy (arg_anthropic_api_key ?a) \<or> \<not> truthy (arg_openai_api_key ?a)" ..
  from missing_key_exits[OF this, of online]
  have "create_image online ?a =
     (Inl (Exit 1),
      Print (if \<not> truthy (arg_anthropic_api_key ?a) then anthropic_key_error else openai_key_error)
        # generation_error online ?a (Exit 1))" ..
  then show ?thesis by (simp only: a g not_True_eq_False if_False)
qed

section \<open>Properties of the image fetcher\<close>







section \<open>Properties of the filename\<close>






end
